theory Spec2Isabelle
  imports Main "HOL-Library.Sublist"
begin

section \<open>Strings\<close>

text \<open>
  Python strings are modelled as HOL strings (lists of 8-bit characters). The model is
  exact for ASCII text: \<open>lower\<close> folds the letters A to Z as \<open>str.lower\<close> does on ASCII,
  \<open>strip\<close> removes the ASCII characters for which \<open>str.isspace\<close> holds, and \<open>len\<close> is the
  list length. Non-ASCII code points are outside the model.
\<close>

definition lower_char :: "char \<Rightarrow> char" where
  "lower_char c =
     (case map_of (zip ''ABCDEFGHIJKLMNOPQRSTUVWXYZ'' ''abcdefghijklmnopqrstuvwxyz'') c of
        Some l \<Rightarrow> l
      | None \<Rightarrow> c)"

definition lower :: "string \<Rightarrow> string" where
  "lower s = map lower_char s"

text \<open>\<open>kw in s\<close> on Python strings: \<open>kw\<close> occurs as a contiguous substring of \<open>s\<close>.\<close>

fun str_in :: "string \<Rightarrow> string \<Rightarrow> bool" where
  "str_in kw [] = (kw = [])"
| "str_in kw (c # cs) = (prefix kw (c # cs) \<or> str_in kw cs)"

definition is_space :: "char \<Rightarrow> bool" where
  "is_space c =
     (c \<in> set [CHR 0x09, CHR 0x0A, CHR 0x0B, CHR 0x0C, CHR 0x0D,
                CHR 0x1C, CHR 0x1D, CHR 0x1E, CHR 0x1F, CHR 0x20])"

definition lstrip :: "string \<Rightarrow> string" where
  "lstrip s = dropWhile is_space s"

definition rstrip :: "string \<Rightarrow> string" where
  "rstrip s = rev (dropWhile is_space (rev s))"

definition strip :: "string \<Rightarrow> string" where
  "strip s = rstrip (lstrip s)"

text \<open>Decimal rendering of a number, as an f-string renders an \<open>int\<close>.\<close>

definition digit_char :: "nat \<Rightarrow> char" where
  "digit_char d = ''0123456789'' ! d"

fun str_of_nat :: "nat \<Rightarrow> string" where
  "str_of_nat n =
     (if n < 10 then [digit_char n] else str_of_nat (n div 10) @ [digit_char (n mod 10)])"

declare str_of_nat.simps [simp del]

section \<open>The memory window\<close>

type_synonym exchange = "string \<times> string"

text \<open>
  \<open>add_to_memory\<close>: append the pair, then drop the first element when the list has grown
  beyond five (\<open>self.memory.pop(0)\<close>).
\<close>

definition add_to_memory :: "exchange list \<Rightarrow> string \<Rightarrow> string \<Rightarrow> exchange list" where
  "add_to_memory memory user_query response =
     (let m = memory @ [(user_query, response)]
      in if length m > 5 then tl m else m)"

text \<open>One iteration of the loop of \<open>get_chat_history\<close> appends this text to \<open>history\<close>.\<close>

definition history_entry :: "nat \<Rightarrow> string \<Rightarrow> string \<Rightarrow> string" where
  "history_entry i user_msg bot_msg =
     ''Message '' @ str_of_nat i @ '':\<newline>User: '' @ user_msg @
     ''\<newline>Assistant: '' @ bot_msg @ ''\<newline>\<newline>''"

fun history_loop :: "nat \<Rightarrow> exchange list \<Rightarrow> string \<Rightarrow> string" where
  "history_loop i [] history = history"
| "history_loop i ((user_msg, bot_msg) # rest) history =
     history_loop (Suc i) rest (history @ history_entry i user_msg bot_msg)"

definition get_chat_history :: "exchange list \<Rightarrow> string" where
  "get_chat_history memory =
     (if memory = [] then ''No previous conversation.''
      else strip (history_loop 1 memory []))"

section \<open>The domain gate and the search heuristic\<close>

definition construction_keywords :: "string list" where
  "construction_keywords =
     [''construction'', ''building'', ''concrete'', ''steel'', ''foundation'', ''safety'',
      ''project management'', ''engineering'', ''structure'', ''material'', ''cost'',
      ''regulation'', ''fire safety'', ''osha'', ''machinery'', ''equipment'', ''site'',
      ''contractor'', ''cement'', ''rebar'', ''excavation'', ''blueprint'', ''architect'',
      ''electrical'', ''plumbing'', ''hvac'', ''roofing'', ''insulation'', ''drywall'']"

definition is_construction_related :: "string \<Rightarrow> bool" where
  "is_construction_related query =
     (let query_lower = lower query
      in list_ex (\<lambda>keyword. str_in keyword query_lower) construction_keywords)"

definition search_keywords :: "string list" where
  "search_keywords =
     [''current'', ''latest'', ''recent'', ''today'', ''2024'', ''2025'', ''price'', ''cost'',
      ''regulation'', ''new'', ''trend'']"

definition needs_search :: "string \<Rightarrow> bool" where
  "needs_search user_query =
     list_ex (\<lambda>keyword. str_in keyword (lower user_query)) search_keywords"

section \<open>Agents, tasks and crews\<close>

text \<open>
  The objects handed to the external stage-execution library. An agent carries its role,
  its tool list and its two resource ceilings; the prose of \<open>goal\<close> and \<open>backstory\<close> is
  not reproduced. A task description is an f-string: it is modelled by the template it
  comes from together with the values interpolated into it.
\<close>

datatype tool = SerperDevTool

record agent =
  role :: string
  tools :: "tool list"
  max_iter :: nat
  max_execution_time :: nat

datatype description =
    ResearchDescription string
  | SynthesisDescription string string
  | AdviceDescription string string

datatype task = Task (task_description: description) (task_agent: agent) (task_context: "task list")

record crew =
  agents :: "agent list"
  tasks :: "task list"

text \<open>An exception is modelled by the text \<open>str(e)\<close> renders it with.\<close>

datatype exn = Exception string

fun str_of_exn :: "exn \<Rightarrow> string" where
  "str_of_exn (Exception msg) = msg"

text \<open>
  The two collaborators the chatbot calls while answering. \<open>kickoff c\<close> is the outcome
  of building the tasks and the crew \<open>c\<close>, running \<open>crew.kickoff()\<close> and rendering the
  result with \<open>str\<close>; \<open>invoke p\<close> is the outcome of \<open>direct_llm.invoke(p)\<close> with the
  text taken from the response. Either may raise.
\<close>

record collaborators =
  kickoff :: "crew \<Rightarrow> exn + string"
  invoke :: "string \<Rightarrow> exn + string"

text \<open>The calls made to collaborators, in order.\<close>

datatype call = Kickoff crew | Invoke string

section \<open>The chatbot\<close>

record chatbot =
  memory :: "exchange list"
  search_tool :: "tool option"
  construction_agent :: agent
  research_agent :: "agent option"

text \<open>\<open>setup_tools\<close>: the search tool, or \<open>None\<close> when its constructor raises.\<close>

definition setup_tools :: "exn + tool \<Rightarrow> tool option" where
  "setup_tools serper = (case serper of Inr t \<Rightarrow> Some t | Inl e \<Rightarrow> None)"

definition make_construction_agent :: "tool option \<Rightarrow> agent" where
  "make_construction_agent st =
     \<lparr>role = ''Construction Expert Assistant'',
      tools = (case st of Some t \<Rightarrow> [t] | None \<Rightarrow> []),
      max_iter = 3,
      max_execution_time = 45\<rparr>"

definition make_research_agent :: "tool option \<Rightarrow> agent option" where
  "make_research_agent st =
     (case st of
        Some t \<Rightarrow>
          Some \<lparr>role = ''Construction Research Specialist'',
                tools = [t],
                max_iter = 2,
                max_execution_time = 30\<rparr>
      | None \<Rightarrow> None)"

text \<open>\<open>setup_crew\<close> sets both agents from the search tool the chatbot holds.\<close>

definition setup_crew :: "chatbot \<Rightarrow> chatbot" where
  "setup_crew s =
     s\<lparr>construction_agent := make_construction_agent (search_tool s),
       research_agent := make_research_agent (search_tool s)\<rparr>"

text \<open>The constructor: empty memory, then \<open>setup_tools\<close>, then \<open>setup_crew\<close>.\<close>

definition new_chatbot :: "exn + tool \<Rightarrow> chatbot" where
  "new_chatbot serper =
     (let st = setup_tools serper
      in \<lparr>memory = [],
          search_tool = st,
          construction_agent = make_construction_agent st,
          research_agent = make_research_agent st\<rparr>)"

definition decline_response :: string where
  "decline_response =
     ''I can only assist with construction-related queries. Please ask about building, safety, materials, project management, or engineering topics.''"

definition rephrase_response :: string where
  "rephrase_response =
     ''I apologize, but I'' @ [CHR 0x27] @ ''m having trouble generating a proper response. Could you please rephrase your construction-related question?''"

definition apology_prefix :: string where
  "apology_prefix =
     ''I apologize, but I'' @ [CHR 0x27] @ ''m experiencing technical difficulties. However, I can still help with construction-related questions about safety, materials, project management, and engineering. Please try rephrasing your question.\<newline>\<newline>Technical error: ''"

definition fallback_response :: "exn \<Rightarrow> string" where
  "fallback_response e = apology_prefix @ take 100 (str_of_exn e) @ ''...''"

definition direct_prompt :: "string \<Rightarrow> string \<Rightarrow> string" where
  "direct_prompt chat_history user_query =
     ''You are a specialized construction industry AI assistant with expertise in building, safety, materials, project management, and engineering.\<newline>\<newline>Chat history: ''
     @ chat_history @ ''\<newline>\<newline>User question: '' @ user_query @
     ''\<newline>\<newline>Provide a detailed, professional response focusing on construction industry knowledge. Include specific information about safety standards, building codes, material specifications, cost estimates, or project management advice as relevant to the question.\<newline>\<newline>Response:''"

definition record_exchange :: "chatbot \<Rightarrow> string \<Rightarrow> string \<Rightarrow> chatbot" where
  "record_exchange s user_query response =
     s\<lparr>memory := add_to_memory (memory s) user_query response\<rparr>"

text \<open>
  Every function below returns what the Python function returns or raises (\<open>Inr\<close> the
  returned string, \<open>Inl\<close> an exception that escapes), the chatbot afterwards, and the
  collaborator calls it made. A \<open>try\<close> block is a case distinction on the outcome of
  the collaborator called in it; the \<open>print\<close> statements of the handlers are left out.
\<close>

type_synonym outcome = "(exn + string) \<times> chatbot \<times> call list"

definition generate_response_direct :: "collaborators \<Rightarrow> chatbot \<Rightarrow> string \<Rightarrow> outcome" where
  "generate_response_direct C s user_query =
     (if \<not> is_construction_related user_query then
        (Inr decline_response, record_exchange s user_query decline_response, [])
      else
        let chat_history = get_chat_history (memory s);
            prompt = direct_prompt chat_history user_query
        in case invoke C prompt of
             Inr response_text \<Rightarrow>
               (Inr response_text, record_exchange s user_query response_text, [Invoke prompt])
           | Inl e \<Rightarrow>
               (Inr (fallback_response e),
                record_exchange s user_query (fallback_response e), [Invoke prompt]))"

definition research_crew :: "agent \<Rightarrow> agent \<Rightarrow> string \<Rightarrow> string \<Rightarrow> crew" where
  "research_crew ra ca user_query chat_history =
     (let research_task = Task (ResearchDescription user_query) ra [];
          response_task = Task (SynthesisDescription user_query chat_history) ca [research_task]
      in \<lparr>agents = [ra, ca], tasks = [research_task, response_task]\<rparr>)"

definition direct_crew :: "agent \<Rightarrow> string \<Rightarrow> string \<Rightarrow> crew" where
  "direct_crew ca user_query chat_history =
     (let response_task = Task (AdviceDescription user_query chat_history) ca []
      in \<lparr>agents = [ca], tasks = [response_task]\<rparr>)"

definition select_crew :: "chatbot \<Rightarrow> string \<Rightarrow> string \<Rightarrow> crew" where
  "select_crew s user_query chat_history =
     (case (needs_search user_query, research_agent s) of
        (True, Some ra) \<Rightarrow> research_crew ra (construction_agent s) user_query chat_history
      | _ \<Rightarrow> direct_crew (construction_agent s) user_query chat_history)"

definition validate :: "string \<Rightarrow> string" where
  "validate response =
     (if response = [] \<or> length response < 10 then rephrase_response else response)"

definition generate_response_with_crew :: "collaborators \<Rightarrow> chatbot \<Rightarrow> string \<Rightarrow> outcome" where
  "generate_response_with_crew C s user_query =
     (if \<not> is_construction_related user_query then
        (Inr decline_response, record_exchange s user_query decline_response, [])
      else
        let chat_history = get_chat_history (memory s);
            c = select_crew s user_query chat_history
        in case kickoff C c of
             Inr result \<Rightarrow>
               (let response = validate (strip result)
                in (Inr response, record_exchange s user_query response, [Kickoff c]))
           | Inl e \<Rightarrow>
               (case generate_response_direct C s user_query of
                  (r, s', calls) \<Rightarrow> (r, s', Kickoff c # calls)))"

definition generate_response :: "collaborators \<Rightarrow> chatbot \<Rightarrow> string \<Rightarrow> outcome" where
  "generate_response C s user_query =
     (case generate_response_with_crew C s user_query of
        (Inr r, s', calls) \<Rightarrow> (Inr r, s', calls)
      | (Inl e, s', calls) \<Rightarrow>
          (case generate_response_direct C s' user_query of
             (r, s'', calls') \<Rightarrow> (r, s'', calls @ calls')))"

section \<open>The handlers of the interface\<close>

text \<open>
  \<open>get_status_info\<close> renders a fixed HTML fragment around two values: whether the search
  tool is present and the number of exchanges held. The model keeps the two values.
\<close>

definition get_status_info :: "chatbot \<Rightarrow> bool \<times> nat" where
  "get_status_info s = (search_tool s \<noteq> None, length (memory s))"

type_synonym message = "string \<times> string"

definition error_response :: "exn \<Rightarrow> string" where
  "error_response e =
     [CHR 0xF0, CHR 0x9F, CHR 0x9A, CHR 0xA8] @
     '' I apologize, but I encountered an error while processing your construction query. Please try again or rephrase your question.\<newline>\<newline>Error: ''
     @ take 100 (str_of_exn e) @ ''...''"

text \<open>
  \<open>respond\<close> returns the new history, the new content of the input box and the status;
  \<open>history\<close> may be \<open>None\<close>. A message is a (role, content) pair. The emoji that
  opens \<open>error_response\<close> is written as its four UTF-8 bytes.
\<close>

definition respond ::
  "collaborators \<Rightarrow> chatbot \<Rightarrow> string \<Rightarrow> message list option \<Rightarrow>
     (message list option \<times> string \<times> (bool \<times> nat)) \<times> chatbot \<times> call list" where
  "respond C s msg history =
     (if strip msg = [] then ((history, [], get_status_info s), s, [])
      else
        let h0 = (case history of None \<Rightarrow> [] | Some h \<Rightarrow> h);
            h1 = h0 @ [(''user'', msg)]
        in case generate_response C s msg of
             (Inr response, s', calls) \<Rightarrow>
               ((Some (h1 @ [(''assistant'', response)]), [], get_status_info s'), s', calls)
           | (Inl e, s', calls) \<Rightarrow>
               ((Some (h1 @ [(''assistant'', error_response e)]), [], get_status_info s'),
                s', calls))"

definition clear_chat :: "chatbot \<Rightarrow> (message list \<times> (bool \<times> nat)) \<times> chatbot" where
  "clear_chat s = (let s' = s\<lparr>memory := []\<rparr> in (([], get_status_info s'), s'))"

text \<open>A session: any sequence of turns and resets, each turn with its own collaborators.\<close>

datatype operation = Turn collaborators string | Reset

fun run :: "chatbot \<Rightarrow> operation list \<Rightarrow> chatbot" where
  "run s [] = s"
| "run s (Turn C q # ops) = run (fst (snd (generate_response C s q))) ops"
| "run s (Reset # ops) = run (snd (clear_chat s)) ops"

section \<open>The history format of the specification\<close>

text \<open>
  The specification describes the formatted history as one block per exchange, numbered
  from 1 in insertion order, each holding the query and the response. The blocks are
  written here from that description, separated by an empty line, to be compared with
  what \<open>get_chat_history\<close> computes.
\<close>

definition numbered_block :: "nat \<Rightarrow> exchange \<Rightarrow> string" where
  "numbered_block i e =
     ''Message '' @ str_of_nat i @ '':\<newline>User: '' @ fst e @ ''\<newline>Assistant: '' @ snd e"

definition numbered_blocks :: "nat \<Rightarrow> exchange list \<Rightarrow> string list" where
  "numbered_blocks i ms = map (\<lambda>(k, e). numbered_block k e) (zip [i..<i + length ms] ms)"

fun join_blocks :: "string list \<Rightarrow> string" where
  "join_blocks [] = []"
| "join_blocks [b] = b"
| "join_blocks (b # b' # bs) = b @ ''\<newline>\<newline>'' @ join_blocks (b' # bs)"

section \<open>Observing the calls\<close>

fun is_invoke :: "call \<Rightarrow> bool" where
  "is_invoke (Invoke p) = True"
| "is_invoke (Kickoff c) = False"

text \<open>The tools reachable from a call: those of the crew's agents and of its tasks' agents.\<close>

fun task_tools :: "task \<Rightarrow> tool list" where
  "task_tools (Task d a ctx) = tools a @ concat (map task_tools ctx)"

fun call_tools :: "call \<Rightarrow> tool list" where
  "call_tools (Kickoff c) = concat (map tools (agents c)) @ concat (map task_tools (tasks c))"
| "call_tools (Invoke p) = []"

section \<open>Example collaborators\<close>

definition both_answer :: collaborators where
  "both_answer =
     \<lparr>kickoff = (\<lambda>c. Inr ''Use grade 60 rebar.''),
      invoke = (\<lambda>p. Inr ''Use grade 60 rebar.'')\<rparr>"

definition both_fail :: collaborators where
  "both_fail =
     \<lparr>kickoff = (\<lambda>c. Inl (Exception ''crew timed out'')),
      invoke = (\<lambda>p. Inl (Exception ''quota exceeded''))\<rparr>"

definition crew_fails_llm_empty :: collaborators where
  "crew_fails_llm_empty =
     \<lparr>kickoff = (\<lambda>c. Inl (Exception ''crew timed out'')), invoke = (\<lambda>p. Inr [])\<rparr>"

definition crew_fails_llm_short :: collaborators where
  "crew_fails_llm_short =
     \<lparr>kickoff = (\<lambda>c. Inl (Exception ''crew timed out'')), invoke = (\<lambda>p. Inr ''OK'')\<rparr>"

definition llm_trailing_newline :: collaborators where
  "llm_trailing_newline =
     \<lparr>kickoff = (\<lambda>c. Inl (Exception ''crew timed out'')),
      invoke = (\<lambda>p. Inr ''Use rebar.\<newline>'')\<rparr>"

section \<open>Basic facts\<close>

lemma str_in_sublist: "str_in kw s = sublist kw s"
  by (induction s) (auto simp: sublist_Cons_right)

lemma add_to_memory_last: "add_to_memory m q r \<noteq> [] \<and> last (add_to_memory m q r) = (q, r)"
  by (cases m) (auto simp: add_to_memory_def Let_def last_tl)

lemma add_to_memory_length:
  "length m \<le> 5 \<Longrightarrow> length (add_to_memory m q r) \<le> 5"
  by (auto simp: add_to_memory_def Let_def)

text \<open>
  Neither level lets an exception escape: each returns a string and records exactly that
  string against the query.
\<close>

lemma direct_outcome:
  "\<exists>r calls. generate_response_direct C s q = (Inr r, record_exchange s q r, calls)"
  by (auto simp: generate_response_direct_def Let_def split: sum.splits)

lemma with_crew_outcome:
  "\<exists>r calls. generate_response_with_crew C s q = (Inr r, record_exchange s q r, calls)"
proof (cases "is_construction_related q")
  case False
  then show ?thesis by (simp add: generate_response_with_crew_def)
next
  case True
  obtain r calls where d: "generate_response_direct C s q = (Inr r, record_exchange s q r, calls)"
    using direct_outcome by blast
  show ?thesis
    using True d by (auto simp: generate_response_with_crew_def Let_def split: sum.splits)
qed

text \<open>So the handler of \<open>generate_response\<close> is never entered.\<close>

lemma generate_response_eq:
  "generate_response C s q = generate_response_with_crew C s q"
proof -
  obtain r calls where "generate_response_with_crew C s q = (Inr r, record_exchange s q r, calls)"
    using with_crew_outcome by blast
  then show ?thesis by (simp add: generate_response_def)
qed

lemma generate_response_outcome:
  "\<exists>r calls. generate_response C s q = (Inr r, record_exchange s q r, calls)"
  using with_crew_outcome by (simp add: generate_response_eq)

lemma generate_response_bounded:
  assumes "length (memory s) \<le> 5"
  shows "length (memory (fst (snd (generate_response C s q)))) \<le> 5"
proof -
  obtain r calls where "generate_response C s q = (Inr r, record_exchange s q r, calls)"
    using generate_response_outcome by blast
  then show ?thesis using assms by (simp add: record_exchange_def add_to_memory_length)
qed

lemma run_bounded: "length (memory s) \<le> 5 \<Longrightarrow> length (memory (run s ops)) \<le> 5"
proof (induction ops arbitrary: s)
  case Nil
  then show ?case by simp
next
  case (Cons a ops)
  show ?case
  proof (cases a)
    case (Turn C q)
    then show ?thesis using Cons generate_response_bounded by simp
  next
    case Reset
    then show ?thesis using Cons by (simp add: clear_chat_def Let_def)
  qed
qed

text \<open>Keyword membership decides both classifiers.\<close>

lemma in_keywords_gate:
  "kw \<in> set construction_keywords \<Longrightarrow> str_in kw (lower q) \<Longrightarrow> is_construction_related q"
  by (auto simp: is_construction_related_def Let_def list_ex_iff)

lemma in_keywords_search:
  "kw \<in> set search_keywords \<Longrightarrow> str_in kw (lower q) \<Longrightarrow> needs_search q"
  by (auto simp: needs_search_def list_ex_iff)

lemma shared_keywords:
  "filter (\<lambda>kw. kw \<in> set search_keywords) construction_keywords = [''cost'', ''regulation'']"
  by (simp add: construction_keywords_def search_keywords_def)

text \<open>What happens once the crew has raised.\<close>

lemma crew_failure_outcome:
  assumes "is_construction_related q"
    and "kickoff C (select_crew s q (get_chat_history (memory s))) = Inl e1"
  shows "generate_response C s q =
           (case generate_response_direct C s q of
              (r, s', calls) \<Rightarrow> (r, s', Kickoff (select_crew s q (get_chat_history (memory s))) # calls))"
  using assms by (simp add: generate_response_eq generate_response_with_crew_def Let_def)

lemma direct_calls:
  assumes "is_construction_related q"
  shows "snd (snd (generate_response_direct C s q)) =
           [Invoke (direct_prompt (get_chat_history (memory s)) q)]"
  using assms by (simp add: generate_response_direct_def Let_def split: sum.splits)

lemma direct_failure:
  assumes "is_construction_related q"
    and "invoke C (direct_prompt (get_chat_history (memory s)) q) = Inl e2"
  shows "fst (generate_response_direct C s q) = Inr (fallback_response e2)"
  using assms by (simp add: generate_response_direct_def Let_def)

text \<open>A chatbot set up without a search tool.\<close>

lemma no_tool_select:
  assumes "search_tool s0 = None"
  shows "select_crew (setup_crew s0) q h = direct_crew (make_construction_agent None) q h"
  using assms
  by (simp add: select_crew_def setup_crew_def make_research_agent_def split: bool.splits)

lemma direct_crew_no_tools:
  "call_tools (Kickoff (direct_crew (make_construction_agent None) q h)) = []"
  by (simp add: direct_crew_def make_construction_agent_def Let_def)

lemma direct_call_tools:
  "concat (map call_tools (snd (snd (generate_response_direct C s q)))) = []"
  by (simp add: generate_response_direct_def Let_def split: sum.splits)

lemma setup_crew_memory: "memory (setup_crew s0) = memory s0"
  by (simp add: setup_crew_def)

text \<open>Blank text: only whitespace, so no keyword occurs in it.\<close>

lemma strip_empty_all_space:
  assumes "strip q = []"
  shows "\<forall>c\<in>set q. is_space c"
proof -
  from assms have "dropWhile is_space (rev (dropWhile is_space q)) = []"
    by (simp add: strip_def rstrip_def lstrip_def)
  then have a: "\<forall>c\<in>set (dropWhile is_space q). is_space c"
    by (simp add: dropWhile_eq_Nil_conv)
  have "dropWhile is_space q = []"
  proof (rule ccontr)
    assume n: "dropWhile is_space q \<noteq> []"
    then have "\<not> is_space (hd (dropWhile is_space q))" by (rule hd_dropWhile)
    moreover have "hd (dropWhile is_space q) \<in> set (dropWhile is_space q)"
      using n by (rule hd_in_set)
    ultimately show False using a by blast
  qed
  then show ?thesis by (simp add: dropWhile_eq_Nil_conv)
qed

lemma keyword_head:
  "list_all (\<lambda>kw. kw \<noteq> [] \<and> \<not> is_space (hd kw)) construction_keywords"
  by (simp add: construction_keywords_def is_space_def)

lemma lower_char_space: "is_space c \<Longrightarrow> lower_char c = c"
  unfolding is_space_def lower_char_def by (elim disjE | simp)+

lemma blank_not_in_domain:
  assumes "strip q = []"
  shows "\<not> is_construction_related q"
proof
  assume "is_construction_related q"
  then obtain kw where kw: "kw \<in> set construction_keywords" "str_in kw (lower q)"
    by (auto simp: is_construction_related_def Let_def list_ex_iff)
  from kw(1) keyword_head have ne: "kw \<noteq> [] \<and> \<not> is_space (hd kw)"
    by (simp add: list_all_iff)
  from kw(2) have "set kw \<subseteq> set (lower q)"
    by (simp add: str_in_sublist set_mono_sublist)
  moreover have "hd kw \<in> set kw" using ne by simp
  ultimately have "hd kw \<in> set (lower q)" by blast
  then obtain c where c: "c \<in> set q" "hd kw = lower_char c" by (auto simp: lower_def)
  from c(1) assms have sp: "is_space c" using strip_empty_all_space by blast
  then have "lower_char c = c" by (rule lower_char_space)
  with c(2) sp ne show False by simp
qed

text \<open>The outcome of a turn on each path past the gate.\<close>

lemma direct_success:
  assumes "is_construction_related q"
    and "invoke C (direct_prompt (get_chat_history (memory s)) q) = Inr t"
  shows "generate_response_direct C s q =
           (Inr t, record_exchange s q t, [Invoke (direct_prompt (get_chat_history (memory s)) q)])"
  using assms by (simp add: generate_response_direct_def Let_def)

lemma crew_failure_direct_success:
  assumes "is_construction_related q"
    and "kickoff C (select_crew s q (get_chat_history (memory s))) = Inl e1"
    and "invoke C (direct_prompt (get_chat_history (memory s)) q) = Inr t"
  shows "generate_response C s q =
           (Inr t, record_exchange s q t,
            [Kickoff (select_crew s q (get_chat_history (memory s))),
             Invoke (direct_prompt (get_chat_history (memory s)) q)])"
  using crew_failure_outcome [OF assms(1,2)] direct_success [OF assms(1,3)] by simp

lemma crew_success:
  assumes "is_construction_related q"
    and "kickoff C (select_crew s q (get_chat_history (memory s))) = Inr result"
  shows "generate_response C s q =
           (Inr (validate (strip result)), record_exchange s q (validate (strip result)),
            [Kickoff (select_crew s q (get_chat_history (memory s)))])"
  using assms by (simp add: generate_response_eq generate_response_with_crew_def Let_def)

lemma validate_length: "10 \<le> length (validate r)"
  by (simp add: validate_def rephrase_response_def)

lemma steel_cost_in_domain: "is_construction_related ''steel cost''"
  by (simp add: is_construction_related_def construction_keywords_def lower_def lower_char_def)

lemma new_chatbot_memory: "memory (new_chatbot serper) = []"
  by (simp add: new_chatbot_def Let_def)

lemma response_texts_nonempty:
  "decline_response \<noteq> [] \<and> validate r \<noteq> [] \<and> fallback_response e \<noteq> []"
  by (simp add: decline_response_def validate_def rephrase_response_def fallback_response_def)

text \<open>
  The returned text is empty only when the crew has raised and the direct call has
  returned an empty text.
\<close>

lemma empty_only_from_direct:
  assumes "fst (generate_response C s q) = Inr []"
  shows "is_construction_related q
         \<and> (\<exists>e. kickoff C (select_crew s q (get_chat_history (memory s))) = Inl e)
         \<and> invoke C (direct_prompt (get_chat_history (memory s)) q) = Inr []"
proof -
  let ?k = "kickoff C (select_crew s q (get_chat_history (memory s)))"
  let ?i = "invoke C (direct_prompt (get_chat_history (memory s)) q)"
  have g: "is_construction_related q"
  proof (rule ccontr)
    assume "\<not> is_construction_related q"
    then have "fst (generate_response C s q) = Inr decline_response"
      by (simp add: generate_response_eq generate_response_with_crew_def)
    moreover have "decline_response \<noteq> []" using response_texts_nonempty by blast
    ultimately show False using assms by simp
  qed
  have k: "\<exists>e. ?k = Inl e"
  proof (cases ?k)
    case (Inl e)
    then show ?thesis by blast
  next
    case (Inr result)
    then have "fst (generate_response C s q) = Inr (validate (strip result))"
      using crew_success [OF g] by simp
    moreover have "validate (strip result) \<noteq> []" using response_texts_nonempty by blast
    ultimately show ?thesis using assms by simp
  qed
  then obtain e1 where e1: "?k = Inl e1" by blast
  have i: "?i = Inr []"
  proof (cases ?i)
    case (Inl e2)
    then have "fst (generate_response C s q) = Inr (fallback_response e2)"
      using crew_failure_outcome [OF g e1] direct_failure [OF g Inl]
      by (simp add: split_beta)
    moreover have "fallback_response e2 \<noteq> []" using response_texts_nonempty by blast
    ultimately show ?thesis using assms by simp
  next
    case (Inr t)
    then have "fst (generate_response C s q) = Inr t"
      using crew_failure_direct_success [OF g e1 Inr] by simp
    then show ?thesis using assms Inr by simp
  qed
  show ?thesis using g k i by blast
qed

text \<open>The loop of \<open>get_chat_history\<close> against the blocks of the specification.\<close>

lemma numbered_blocks_Nil: "numbered_blocks i [] = []"
  by (simp add: numbered_blocks_def)

lemma numbered_blocks_Cons:
  "numbered_blocks i (e # ms) = numbered_block i e # numbered_blocks (Suc i) ms"
proof -
  have "[i..<i + length (e # ms)] = i # [Suc i..<Suc i + length ms]"
    by (simp del: upt_Suc add: upt_conv_Cons)
  then show ?thesis by (simp add: numbered_blocks_def)
qed

lemma numbered_blocks_empty: "numbered_blocks i ms = [] \<longleftrightarrow> ms = []"
  by (cases ms) (simp_all add: numbered_blocks_Nil numbered_blocks_Cons)

lemma history_entry_block:
  "history_entry i u b = numbered_block i (u, b) @ ''\<newline>\<newline>''"
  by (simp add: history_entry_def numbered_block_def)

lemma history_loop_acc: "history_loop i ms h = h @ history_loop i ms []"
proof (induction ms arbitrary: i h)
  case Nil
  then show ?case by simp
next
  case (Cons e ms)
  obtain u b where e: "e = (u, b)" by (cases e)
  have "history_loop i (e # ms) h = history_loop (Suc i) ms (h @ history_entry i u b)"
    by (simp add: e)
  also have "\<dots> = (h @ history_entry i u b) @ history_loop (Suc i) ms []"
    by (rule Cons.IH)
  also have "\<dots> = h @ (history_entry i u b @ history_loop (Suc i) ms [])"
    by simp
  also have "history_entry i u b @ history_loop (Suc i) ms [] = history_loop (Suc i) ms ([] @ history_entry i u b)"
    using Cons.IH [of "Suc i" "history_entry i u b"] by simp
  also have "\<dots> = history_loop i (e # ms) []"
    by (simp add: e)
  finally show ?case .
qed

lemma history_loop_blocks:
  "ms \<noteq> [] \<Longrightarrow> history_loop i ms [] = join_blocks (numbered_blocks i ms) @ ''\<newline>\<newline>''"
proof (induction ms arbitrary: i)
  case Nil
  then show ?case by simp
next
  case (Cons e ms)
  obtain u b where e: "e = (u, b)" by (cases e)
  have step: "history_loop i (e # ms) [] = history_entry i u b @ history_loop (Suc i) ms []"
    using history_loop_acc [of "Suc i" ms "history_entry i u b"] by (simp add: e)
  show ?case
  proof (cases ms)
    case Nil
    then show ?thesis
      by (simp add: e history_entry_block numbered_blocks_Cons numbered_blocks_Nil)
  next
    case (Cons e' ms')
    then have ne: "ms \<noteq> []" by simp
    obtain b' bs where nb: "numbered_blocks (Suc i) ms = b' # bs"
      using ne numbered_blocks_empty [of "Suc i" ms] by (cases "numbered_blocks (Suc i) ms") auto
    have "history_loop i (e # ms) [] =
            numbered_block i e @ ''\<newline>\<newline>'' @ join_blocks (numbered_blocks (Suc i) ms) @ ''\<newline>\<newline>''"
      using step Cons.IH [OF ne, of "Suc i"] by (simp add: e history_entry_block)
    then show ?thesis
      by (simp add: numbered_blocks_Cons nb)
  qed
qed

lemma join_blocks_hd:
  "bs \<noteq> [] \<Longrightarrow> hd bs \<noteq> [] \<Longrightarrow> join_blocks bs \<noteq> [] \<and> hd (join_blocks bs) = hd (hd bs)"
  by (induction bs rule: join_blocks.induct) auto

lemma join_blocks_last:
  "bs \<noteq> [] \<Longrightarrow> last bs \<noteq> [] \<Longrightarrow> join_blocks bs \<noteq> [] \<and> last (join_blocks bs) = last (last bs)"
  by (induction bs rule: join_blocks.induct) auto

lemma numbered_blocks_last:
  "ms \<noteq> [] \<Longrightarrow> last (numbered_blocks i ms) = numbered_block (i + length ms - 1) (last ms)"
proof (induction ms arbitrary: i)
  case Nil
  then show ?case by simp
next
  case (Cons e ms)
  show ?case
  proof (cases ms)
    case Nil
    then show ?thesis by (simp add: numbered_blocks_Cons numbered_blocks_Nil)
  next
    case (Cons e' ms')
    then have ne: "ms \<noteq> []" by simp
    then have "numbered_blocks (Suc i) ms \<noteq> []" by (simp add: numbered_blocks_empty)
    then show ?thesis using Cons.IH [OF ne, of "Suc i"] ne
      by (simp add: numbered_blocks_Cons)
  qed
qed

lemma lstrip_nonspace: "s \<noteq> [] \<Longrightarrow> \<not> is_space (hd s) \<Longrightarrow> lstrip s = s"
  by (cases s) (simp_all add: lstrip_def)

lemma rstrip_nonspace: "s \<noteq> [] \<Longrightarrow> \<not> is_space (last s) \<Longrightarrow> rstrip s = s"
  by (cases s rule: rev_cases) (simp_all add: rstrip_def)

lemma is_space_newline: "is_space CHR 0x0A"
  by (simp add: is_space_def)

lemma rstrip_newlines: "rstrip (s @ ''\<newline>\<newline>'') = rstrip s"
  using is_space_newline by (simp add: rstrip_def)

lemma numbered_blocks_hd:
  "ms \<noteq> [] \<Longrightarrow> hd (numbered_blocks i ms) \<noteq> [] \<and> hd (hd (numbered_blocks i ms)) = CHR ''M''"
  by (cases ms) (simp_all add: numbered_blocks_Cons numbered_block_def)

lemma chat_history_rstrip:
  assumes "ms \<noteq> []"
  shows "get_chat_history ms = rstrip (join_blocks (numbered_blocks 1 ms))"
proof -
  let ?j = "join_blocks (numbered_blocks 1 ms)"
  have nb: "numbered_blocks 1 ms \<noteq> []" using assms by (simp add: numbered_blocks_empty)
  have h: "?j \<noteq> [] \<and> hd ?j = CHR ''M''"
    using join_blocks_hd [OF nb] numbered_blocks_hd [OF assms, of 1] by simp
  then have "\<not> is_space (hd (?j @ ''\<newline>\<newline>''))"
    by (simp add: is_space_def)
  then have "lstrip (?j @ ''\<newline>\<newline>'') = ?j @ ''\<newline>\<newline>''"
    by (intro lstrip_nonspace) simp_all
  then show ?thesis
    using assms history_loop_blocks [OF assms, of 1]
    by (simp add: get_chat_history_def strip_def rstrip_newlines)
qed

section \<open>The claims\<close>

text \<open>
  C2. A query the domain gate rejects is answered with exactly the decline literal, no
  collaborator is called, and the one exchange (query, decline literal) is added to the
  memory window by \<open>add_to_memory\<close>.
\<close>

theorem out_of_domain_declined:
  assumes "\<not> is_construction_related q"
  shows "generate_response C s q =
           (Inr decline_response,
            s\<lparr>memory := add_to_memory (memory s) q decline_response\<rparr>, [])"
  using assms
  by (simp add: generate_response_eq generate_response_with_crew_def record_exchange_def)

theorem out_of_domain_declined_witness:
  "\<not> is_construction_related ''What is the weather today?''
   \<and> generate_response both_answer (new_chatbot (Inr SerperDevTool)) ''What is the weather today?''
       = (Inr decline_response,
          (new_chatbot (Inr SerperDevTool))
            \<lparr>memory := [(''What is the weather today?'', decline_response)]\<rparr>, [])"
proof -
  have h: "\<not> is_construction_related ''What is the weather today?''"
    by (simp add: is_construction_related_def construction_keywords_def lower_def lower_char_def)
  have m: "memory (new_chatbot (Inr SerperDevTool)) = []"
    by (simp add: new_chatbot_def Let_def)
  show ?thesis
    using h out_of_domain_declined [OF h, of both_answer "new_chatbot (Inr SerperDevTool)"]
    by (simp add: m add_to_memory_def)
qed

text \<open>
  C3. From a new chatbot, after any sequence of turns and resets the memory window holds
  at most five exchanges. Adding to a window of five drops exactly the oldest one and
  keeps the others in order, the new exchange last; adding to a shorter window only
  appends.
\<close>

theorem memory_window_capacity:
  "length (memory (run (new_chatbot serper) ops)) \<le> 5
   \<and> add_to_memory [e1, e2, e3, e4, e5] q r = [e2, e3, e4, e5, (q, r)]
   \<and> (length m = 5 \<longrightarrow> add_to_memory m q r = tl m @ [(q, r)])
   \<and> (length m < 5 \<longrightarrow> add_to_memory m q r = m @ [(q, r)])
   \<and> (length m \<le> 5 \<longrightarrow> length (add_to_memory m q r) \<le> 5)"
proof -
  have "length (memory (new_chatbot serper)) \<le> 5"
    by (simp add: new_chatbot_def Let_def)
  then have "length (memory (run (new_chatbot serper) ops)) \<le> 5"
    by (rule run_bounded)
  moreover have "add_to_memory [e1, e2, e3, e4, e5] q r = [e2, e3, e4, e5, (q, r)]"
    by (simp add: add_to_memory_def)
  moreover have "length m = 5 \<longrightarrow> add_to_memory m q r = tl m @ [(q, r)]"
    by (cases m) (auto simp: add_to_memory_def Let_def)
  moreover have "length m < 5 \<longrightarrow> add_to_memory m q r = m @ [(q, r)]"
    by (simp add: add_to_memory_def Let_def)
  moreover have "length m \<le> 5 \<longrightarrow> length (add_to_memory m q r) \<le> 5"
    by (simp add: add_to_memory_length)
  ultimately show ?thesis by blast
qed

theorem memory_window_capacity_witness:
  "length [(''q1'', ''r1''), (''q2'', ''r2''), (''q3'', ''r3''), (''q4'', ''r4''), (''q5'', ''r5'')] = 5
   \<and> add_to_memory
        [(''q1'', ''r1''), (''q2'', ''r2''), (''q3'', ''r3''), (''q4'', ''r4''), (''q5'', ''r5'')]
        ''q6'' ''r6''
      = [(''q2'', ''r2''), (''q3'', ''r3''), (''q4'', ''r4''), (''q5'', ''r5''), (''q6'', ''r6'')]
   \<and> length (memory (run (new_chatbot (Inr SerperDevTool)) [Reset])) \<le> 5"
  using memory_window_capacity
    [of "Inr SerperDevTool" "[Reset]" "(''q1'', ''r1'')" "(''q2'', ''r2'')" "(''q3'', ''r3'')"
        "(''q4'', ''r4'')" "(''q5'', ''r5'')" "''q6''" "''r6''"
        "[(''q1'', ''r1''), (''q2'', ''r2''), (''q3'', ''r3''), (''q4'', ''r4''), (''q5'', ''r5'')]"]
  by simp

text \<open>
  C9. Every call of \<open>generate_response\<close> returns a string, and the last exchange of the
  memory window afterwards is the query with exactly that string, whichever path
  produced it.
\<close>

theorem returned_text_is_recorded:
  "\<exists>r. fst (generate_response C s q) = Inr r
       \<and> memory (fst (snd (generate_response C s q))) \<noteq> []
       \<and> last (memory (fst (snd (generate_response C s q)))) = (q, r)"
proof -
  obtain r calls where "generate_response C s q = (Inr r, record_exchange s q r, calls)"
    using generate_response_outcome by blast
  then show ?thesis by (auto simp: record_exchange_def add_to_memory_last)
qed

text \<open>
  C4. When the chatbot was set up without a search tool, an in-domain query is run on
  the single-task crew of the construction agent, whatever the search keywords say, and
  no call made during the turn reaches a tool.
\<close>

theorem no_tool_no_retrieval:
  assumes "search_tool s0 = None" and "is_construction_related q"
  shows "(\<exists>rest. snd (snd (generate_response C (setup_crew s0) q)) =
            Kickoff (direct_crew (make_construction_agent None) q (get_chat_history (memory s0))) # rest)
         \<and> concat (map call_tools (snd (snd (generate_response C (setup_crew s0) q)))) = []"
proof -
  let ?s = "setup_crew s0"
  let ?c = "direct_crew (make_construction_agent None) q (get_chat_history (memory s0))"
  have sel: "select_crew ?s q (get_chat_history (memory ?s)) = ?c"
    using no_tool_select [OF assms(1)] by (simp add: setup_crew_memory)
  obtain r s' calls where d: "generate_response_direct C ?s q = (r, s', calls)"
    by (cases "generate_response_direct C ?s q") auto
  have dt: "concat (map call_tools calls) = []"
    using direct_call_tools [of C ?s q] d by simp
  show ?thesis
  proof (cases "kickoff C ?c")
    case (Inl e)
    then have "snd (snd (generate_response C ?s q)) = Kickoff ?c # calls"
      using assms(2) sel d
      by (simp add: generate_response_eq generate_response_with_crew_def Let_def)
    then show ?thesis using dt direct_crew_no_tools by simp
  next
    case (Inr result)
    then have "snd (snd (generate_response C ?s q)) = [Kickoff ?c]"
      using assms(2) sel
      by (simp add: generate_response_eq generate_response_with_crew_def Let_def)
    then show ?thesis using direct_crew_no_tools by simp
  qed
qed

theorem no_tool_no_retrieval_witness:
  "search_tool (new_chatbot (Inl (Exception ''no key''))) = None
   \<and> is_construction_related ''current steel cost''
   \<and> needs_search ''current steel cost''
   \<and> concat (map call_tools (snd (snd (generate_response both_answer
         (setup_crew (new_chatbot (Inl (Exception ''no key'')))) ''current steel cost'')))) = []"
proof -
  have h1: "search_tool (new_chatbot (Inl (Exception ''no key''))) = None"
    by (simp add: new_chatbot_def setup_tools_def Let_def)
  have h2: "is_construction_related ''current steel cost''"
    by (simp add: is_construction_related_def construction_keywords_def lower_def lower_char_def)
  have h3: "needs_search ''current steel cost''"
    by (simp add: needs_search_def search_keywords_def lower_def lower_char_def)
  show ?thesis
    using h1 h2 h3 no_tool_no_retrieval [OF h1 h2, of both_answer] by blast
qed

text \<open>
  C6. When the crew raises on an in-domain query, the direct call is made exactly once,
  after the crew. If that call raises too, the returned text is the fixed apology
  followed by the first 100 characters at most of the error text and by three dots; it
  is not empty.
\<close>

theorem pipeline_failure_falls_back:
  assumes "is_construction_related q"
    and "kickoff C (select_crew s q (get_chat_history (memory s))) = Inl e1"
  shows "snd (snd (generate_response C s q)) =
           [Kickoff (select_crew s q (get_chat_history (memory s))),
            Invoke (direct_prompt (get_chat_history (memory s)) q)]
         \<and> length (filter is_invoke (snd (snd (generate_response C s q)))) = 1
         \<and> (\<forall>e2. invoke C (direct_prompt (get_chat_history (memory s)) q) = Inl e2 \<longrightarrow>
               (\<exists>d. fst (generate_response C s q) = Inr (apology_prefix @ d @ ''...'')
                   \<and> apology_prefix @ d @ ''...'' \<noteq> []
                   \<and> prefix d (str_of_exn e2)
                   \<and> length d = min 100 (length (str_of_exn e2))))"
proof -
  let ?g = "generate_response C s q"
  let ?d = "generate_response_direct C s q"
  have eq: "?g = (case ?d of (r, s', calls) \<Rightarrow>
      (r, s', Kickoff (select_crew s q (get_chat_history (memory s))) # calls))"
    using assms by (rule crew_failure_outcome)
  have calls: "snd (snd ?g) = Kickoff (select_crew s q (get_chat_history (memory s))) # snd (snd ?d)"
    by (simp add: eq split: prod.splits)
  have res: "fst ?g = fst ?d"
    by (simp add: eq split: prod.splits)
  have c1: "snd (snd ?g) =
           [Kickoff (select_crew s q (get_chat_history (memory s))),
            Invoke (direct_prompt (get_chat_history (memory s)) q)]"
    using calls direct_calls [OF assms(1)] by simp
  have c2: "length (filter is_invoke (snd (snd ?g))) = 1"
    by (simp add: c1)
  have c3: "\<exists>d. fst ?g = Inr (apology_prefix @ d @ ''...'')
                   \<and> apology_prefix @ d @ ''...'' \<noteq> []
                   \<and> prefix d (str_of_exn e2)
                   \<and> length d = min 100 (length (str_of_exn e2))"
    if f: "invoke C (direct_prompt (get_chat_history (memory s)) q) = Inl e2" for e2
  proof (intro exI [of _ "take 100 (str_of_exn e2)"] conjI)
    show "fst ?g = Inr (apology_prefix @ take 100 (str_of_exn e2) @ ''...'')"
      using res direct_failure [OF assms(1) f] by (simp add: fallback_response_def)
    show "apology_prefix @ take 100 (str_of_exn e2) @ ''...'' \<noteq> []" by simp
    show "prefix (take 100 (str_of_exn e2)) (str_of_exn e2)" by (rule take_is_prefix)
    show "length (take 100 (str_of_exn e2)) = min 100 (length (str_of_exn e2))" by simp
  qed
  show ?thesis using c1 c2 c3 by blast
qed

theorem pipeline_failure_falls_back_witness:
  "is_construction_related ''steel cost''
   \<and> kickoff both_fail
        (select_crew (new_chatbot (Inr SerperDevTool)) ''steel cost''
           (get_chat_history (memory (new_chatbot (Inr SerperDevTool)))))
       = Inl (Exception ''crew timed out'')
   \<and> length (filter is_invoke
        (snd (snd (generate_response both_fail (new_chatbot (Inr SerperDevTool)) ''steel cost'')))) = 1
   \<and> (\<exists>d. fst (generate_response both_fail (new_chatbot (Inr SerperDevTool)) ''steel cost'')
             = Inr (apology_prefix @ d @ ''...'')
          \<and> prefix d ''quota exceeded'')"
proof -
  let ?s = "new_chatbot (Inr SerperDevTool)"
  have h1: "is_construction_related ''steel cost''"
    by (simp add: is_construction_related_def construction_keywords_def lower_def lower_char_def)
  have h2: "kickoff both_fail (select_crew ?s ''steel cost'' (get_chat_history (memory ?s)))
              = Inl (Exception ''crew timed out'')"
    by (simp add: both_fail_def)
  have h3: "invoke both_fail (direct_prompt (get_chat_history (memory ?s)) ''steel cost'')
              = Inl (Exception ''quota exceeded'')"
    by (simp add: both_fail_def)
  note t = pipeline_failure_falls_back [OF h1 h2]
  from t have a: "length (filter is_invoke (snd (snd (generate_response both_fail ?s ''steel cost'')))) = 1"
    by blast
  from t h3 have "\<exists>d. fst (generate_response both_fail ?s ''steel cost'')
             = Inr (apology_prefix @ d @ ''...'')
          \<and> prefix d (str_of_exn (Exception ''quota exceeded''))"
    by blast
  then have b: "\<exists>d. fst (generate_response both_fail ?s ''steel cost'')
             = Inr (apology_prefix @ d @ ''...'')
          \<and> prefix d ''quota exceeded''"
    by simp
  show ?thesis using h1 h2 a b by blast
qed

text \<open>
  C8, as amended. A blank message (empty or only whitespace) is stopped by the handler
  \<open>respond\<close>: it returns the history it was given and an empty input box, leaves the
  chatbot as it was and calls no collaborator. \<open>generate_response\<close> has no such guard:
  called with a blank query it declines it like any other out-of-domain query and
  records the exchange.
\<close>

theorem blank_message_ignored_by_respond:
  assumes "strip msg = []"
  shows "respond C s msg history = ((history, [], get_status_info s), s, [])
         \<and> generate_response C s msg =
             (Inr decline_response, record_exchange s msg decline_response, [])"
proof -
  have g: "\<not> is_construction_related msg" using assms by (rule blank_not_in_domain)
  have "respond C s msg history = ((history, [], get_status_info s), s, [])"
    using assms by (simp add: respond_def)
  moreover have "generate_response C s msg =
             (Inr decline_response, record_exchange s msg decline_response, [])"
    using g by (simp add: generate_response_eq generate_response_with_crew_def)
  ultimately show ?thesis by simp
qed

theorem blank_message_ignored_by_respond_witness:
  "strip ''  '' = []
   \<and> respond both_answer (new_chatbot (Inr SerperDevTool)) ''  '' None
       = ((None, [], get_status_info (new_chatbot (Inr SerperDevTool))),
          new_chatbot (Inr SerperDevTool), [])"
proof -
  have h: "strip ''  '' = []"
    by (simp add: strip_def lstrip_def rstrip_def is_space_def)
  show ?thesis
    using h blank_message_ignored_by_respond [OF h, of both_answer "new_chatbot (Inr SerperDevTool)" None]
    by simp
qed

text \<open>
  C8 as stated fails for \<open>generate_response\<close>: on a query of two spaces it returns a
  non-empty string and the memory window changes.
\<close>

theorem blank_query_counterexample:
  "fst (generate_response both_answer (new_chatbot (Inr SerperDevTool)) ''  '') \<noteq> Inr []
   \<and> memory (fst (snd (generate_response both_answer (new_chatbot (Inr SerperDevTool)) ''  '')))
       \<noteq> memory (new_chatbot (Inr SerperDevTool))"
proof -
  have g: "\<not> is_construction_related ''  ''"
    by (simp add: is_construction_related_def construction_keywords_def lower_def lower_char_def)
  have "generate_response both_answer (new_chatbot (Inr SerperDevTool)) ''  '' =
          (Inr decline_response, record_exchange (new_chatbot (Inr SerperDevTool)) ''  '' decline_response, [])"
    using g by (simp add: generate_response_eq generate_response_with_crew_def)
  then show ?thesis
    by (simp add: record_exchange_def add_to_memory_def new_chatbot_def Let_def decline_response_def)
qed

text \<open>
  C10. The two keyword lists share exactly \<open>cost\<close> and \<open>regulation\<close>. A query whose
  lower-cased text contains either is accepted by the domain gate and asks for search.
\<close>

theorem shared_keywords_agree:
  assumes "str_in ''cost'' (lower q) \<or> str_in ''regulation'' (lower q)"
  shows "is_construction_related q \<and> needs_search q
         \<and> filter (\<lambda>kw. kw \<in> set search_keywords) construction_keywords = [''cost'', ''regulation'']"
proof -
  have c1: "''cost'' \<in> set construction_keywords" "''regulation'' \<in> set construction_keywords"
    by (simp_all add: construction_keywords_def)
  have c2: "''cost'' \<in> set search_keywords" "''regulation'' \<in> set search_keywords"
    by (simp_all add: search_keywords_def)
  have g: "is_construction_related q" using assms c1 in_keywords_gate by blast
  have n: "needs_search q" using assms c2 in_keywords_search by blast
  show ?thesis using g n shared_keywords by blast
qed

theorem shared_keywords_agree_witness:
  "str_in ''cost'' (lower ''Any REGULATION on Cost?'')
   \<and> is_construction_related ''Any REGULATION on Cost?''
   \<and> needs_search ''Any REGULATION on Cost?''"
proof -
  have h: "str_in ''cost'' (lower ''Any REGULATION on Cost?'')"
    by (simp add: lower_def lower_char_def)
  show ?thesis using h shared_keywords_agree [of "''Any REGULATION on Cost?''"] by blast
qed

text \<open>
  C1, at the failing input. No call of \<open>generate_response\<close> raises
  (\<open>generate_response_outcome\<close>), but the string it returns can be empty: when the crew
  raises and the direct call returns a response with empty content, that content is
  returned as it is. It is the only way to an empty text (\<open>empty_only_from_direct\<close>).
\<close>

theorem empty_reply_returned:
  "fst (generate_response crew_fails_llm_empty (new_chatbot (Inr SerperDevTool)) ''steel cost'')
     = Inr []"
proof -
  let ?s = "new_chatbot (Inr SerperDevTool)"
  have k: "kickoff crew_fails_llm_empty (select_crew ?s ''steel cost'' (get_chat_history (memory ?s)))
             = Inl (Exception ''crew timed out'')"
    by (simp add: crew_fails_llm_empty_def)
  have i: "invoke crew_fails_llm_empty (direct_prompt (get_chat_history (memory ?s)) ''steel cost'')
             = Inr []"
    by (simp add: crew_fails_llm_empty_def)
  show ?thesis
    using crew_failure_direct_success [OF steel_cost_in_domain k i] by simp
qed

text \<open>
  C5, at the failing input. The text of the crew is validated on both crew shapes
  (\<open>crew_success\<close>), the text of the direct call is not: when the crew raises and the
  direct call answers with two characters, these are returned and recorded, where
  validation would have put the request to rephrase.
\<close>

theorem short_reply_not_validated:
  "fst (generate_response crew_fails_llm_short (new_chatbot (Inr SerperDevTool)) ''steel cost'')
     = Inr ''OK''
   \<and> memory (fst (snd (generate_response crew_fails_llm_short
        (new_chatbot (Inr SerperDevTool)) ''steel cost''))) = [(''steel cost'', ''OK'')]
   \<and> validate ''OK'' = rephrase_response
   \<and> rephrase_response \<noteq> ''OK''"
proof -
  let ?s = "new_chatbot (Inr SerperDevTool)"
  have k: "kickoff crew_fails_llm_short (select_crew ?s ''steel cost'' (get_chat_history (memory ?s)))
             = Inl (Exception ''crew timed out'')"
    by (simp add: crew_fails_llm_short_def)
  have i: "invoke crew_fails_llm_short (direct_prompt (get_chat_history (memory ?s)) ''steel cost'')
             = Inr ''OK''"
    by (simp add: crew_fails_llm_short_def)
  have g: "generate_response crew_fails_llm_short ?s ''steel cost'' =
             (Inr ''OK'', record_exchange ?s ''steel cost'' ''OK'',
              [Kickoff (select_crew ?s ''steel cost'' (get_chat_history (memory ?s))),
               Invoke (direct_prompt (get_chat_history (memory ?s)) ''steel cost'')])"
    using steel_cost_in_domain k i by (rule crew_failure_direct_success)
  have a: "fst (generate_response crew_fails_llm_short ?s ''steel cost'') = Inr ''OK''"
    by (simp add: g)
  have b: "memory (fst (snd (generate_response crew_fails_llm_short ?s ''steel cost'')))
             = [(''steel cost'', ''OK'')]"
    by (simp add: g record_exchange_def add_to_memory_def new_chatbot_memory)
  have c: "validate ''OK'' = rephrase_response"
    by (simp add: validate_def)
  have d: "rephrase_response \<noteq> ''OK''"
    by (simp add: rephrase_response_def)
  show ?thesis using a b c d by blast
qed

text \<open>
  C7, as amended. On an empty window \<open>get_chat_history\<close> returns the literal; on a
  window of k exchanges it returns the k blocks numbered 1 to k in insertion order,
  separated by empty lines, with the whitespace at the end of the whole text removed.
  The queries and all responses but the last are therefore verbatim, and the last
  response is verbatim when it is not empty and does not end in whitespace.
\<close>

theorem chat_history_format:
  "get_chat_history [] = ''No previous conversation.''
   \<and> (ms \<noteq> [] \<longrightarrow> get_chat_history ms = rstrip (join_blocks (numbered_blocks 1 ms)))
   \<and> (ms \<noteq> [] \<and> snd (last ms) \<noteq> [] \<and> \<not> is_space (last (snd (last ms))) \<longrightarrow>
        get_chat_history ms = join_blocks (numbered_blocks 1 ms))
   \<and> length (numbered_blocks 1 ms) = length ms
   \<and> (\<forall>k<length ms. numbered_blocks 1 ms ! k = numbered_block (Suc k) (ms ! k))"
proof -
  have a: "get_chat_history [] = ''No previous conversation.''"
    by (simp add: get_chat_history_def)
  have b: "get_chat_history ms = rstrip (join_blocks (numbered_blocks 1 ms))" if "ms \<noteq> []"
    using that by (rule chat_history_rstrip)
  have c: "get_chat_history ms = join_blocks (numbered_blocks 1 ms)"
    if ne: "ms \<noteq> []" and r: "snd (last ms) \<noteq> []" and sp: "\<not> is_space (last (snd (last ms)))"
  proof -
    let ?bs = "numbered_blocks 1 ms"
    have nb: "?bs \<noteq> []" using ne by (simp add: numbered_blocks_empty)
    have lb: "last ?bs = numbered_block (1 + length ms - 1) (last ms)"
      using ne by (rule numbered_blocks_last)
    then have l1: "last ?bs \<noteq> []" by (simp add: numbered_block_def)
    have l2: "last (last ?bs) = last (snd (last ms))"
      using r by (subst lb) (simp add: numbered_block_def)
    have "join_blocks ?bs \<noteq> [] \<and> last (join_blocks ?bs) = last (snd (last ms))"
      using join_blocks_last [OF nb l1] l2 by simp
    then have "rstrip (join_blocks ?bs) = join_blocks ?bs"
      using sp by (intro rstrip_nonspace) simp_all
    then show ?thesis using b [OF ne] by simp
  qed
  have d: "length (numbered_blocks 1 ms) = length ms"
    by (simp add: numbered_blocks_def del: upt_Suc)
  have e: "\<forall>k<length ms. numbered_blocks 1 ms ! k = numbered_block (Suc k) (ms ! k)"
  proof (intro allI impI)
    fix k
    assume "k < length ms"
    then show "numbered_blocks 1 ms ! k = numbered_block (Suc k) (ms ! k)"
      by (simp add: numbered_blocks_def del: upt_Suc)
  qed
  show ?thesis using a b c d e by blast
qed

theorem chat_history_format_witness:
  "[(''q1'', ''a1''), (''q2'', ''a2'')] \<noteq> []
   \<and> \<not> is_space (last (snd (last [(''q1'', ''a1''), (''q2'', ''a2'')])))
   \<and> get_chat_history [(''q1'', ''a1''), (''q2'', ''a2'')] =
       ''Message 1:\<newline>User: q1\<newline>Assistant: a1\<newline>\<newline>Message 2:\<newline>User: q2\<newline>Assistant: a2''"
proof -
  have h: "\<not> is_space (last (snd (last [(''q1'', ''a1''), (''q2'', ''a2'')])))"
    by (simp add: is_space_def)
  have j: "join_blocks (numbered_blocks 1 [(''q1'', ''a1''), (''q2'', ''a2'')]) =
       ''Message 1:\<newline>User: q1\<newline>Assistant: a1\<newline>\<newline>Message 2:\<newline>User: q2\<newline>Assistant: a2''"
    by (simp add: numbered_blocks_Cons numbered_blocks_Nil numbered_block_def
        str_of_nat.simps digit_char_def)
  have n: "[(''q1'', ''a1''), (''q2'', ''a2'')] \<noteq> []"
    and r: "snd (last [(''q1'', ''a1''), (''q2'', ''a2'')]) \<noteq> []"
    by simp_all
  have "get_chat_history [(''q1'', ''a1''), (''q2'', ''a2'')] =
          join_blocks (numbered_blocks 1 [(''q1'', ''a1''), (''q2'', ''a2'')])"
    using chat_history_format [of "[(''q1'', ''a1''), (''q2'', ''a2'')]"] n r h by blast
  then show ?thesis using n h j by simp
qed

text \<open>
  C7 as stated fails: after a turn answered by the direct call with a text that ends in
  a line break, the window holds that text, and the formatted history does not contain
  it.
\<close>

theorem chat_history_verbatim_counterexample:
  "memory (run (new_chatbot (Inr SerperDevTool)) [Turn llm_trailing_newline ''steel cost''])
     = [(''steel cost'', ''Use rebar.\<newline>'')]
   \<and> get_chat_history
        (memory (run (new_chatbot (Inr SerperDevTool)) [Turn llm_trailing_newline ''steel cost'']))
     = ''Message 1:\<newline>User: steel cost\<newline>Assistant: Use rebar.''
   \<and> \<not> str_in ''Use rebar.\<newline>''
        (get_chat_history
           (memory (run (new_chatbot (Inr SerperDevTool)) [Turn llm_trailing_newline ''steel cost''])))"
proof -
  let ?s = "new_chatbot (Inr SerperDevTool)"
  have k: "kickoff llm_trailing_newline (select_crew ?s ''steel cost'' (get_chat_history (memory ?s)))
             = Inl (Exception ''crew timed out'')"
    by (simp add: llm_trailing_newline_def)
  have i: "invoke llm_trailing_newline (direct_prompt (get_chat_history (memory ?s)) ''steel cost'')
             = Inr ''Use rebar.\<newline>''"
    by (simp add: llm_trailing_newline_def)
  have "fst (snd (generate_response llm_trailing_newline ?s ''steel cost''))
          = record_exchange ?s ''steel cost'' ''Use rebar.\<newline>''"
    using crew_failure_direct_success [OF steel_cost_in_domain k i] by simp
  then have m: "memory (run ?s [Turn llm_trailing_newline ''steel cost''])
                  = [(''steel cost'', ''Use rebar.\<newline>'')]"
    by (simp add: record_exchange_def add_to_memory_def new_chatbot_memory)
  have g: "get_chat_history [(''steel cost'', ''Use rebar.\<newline>'')]
             = ''Message 1:\<newline>User: steel cost\<newline>Assistant: Use rebar.''"
    by (simp add: get_chat_history_def history_entry_def strip_def lstrip_def rstrip_def
        is_space_def str_of_nat.simps digit_char_def)
  have n: "\<not> str_in ''Use rebar.\<newline>''
             ''Message 1:\<newline>User: steel cost\<newline>Assistant: Use rebar.''"
    by simp
  show ?thesis using m g n by simp
qed

end
